theory Spec2Isabelle
  imports Complex_Main "HOL-Library.Word"
begin

section \<open>Python values and errors\<close>

text \<open>
  The exceptions the modelled code can raise.  A function that may raise returns
  \<open>error + 'a\<close>, with \<open>Inl\<close> for the exception.
\<close>

datatype error = IndexError | KeyError | ValueError | TypeError | UnitConversionError

text \<open>
  Python list indexing \<open>xs[i]\<close>: an index in \<open>-len(xs) .. -1\<close> counts from the end,
  anything outside \<open>-len(xs) .. len(xs) - 1\<close> raises IndexError.
\<close>

definition py_index :: "'a list \<Rightarrow> int \<Rightarrow> error + 'a" where
  "py_index xs i =
     (if 0 \<le> i \<and> i < int (length xs) then Inr (xs ! nat i)
      else if - int (length xs) \<le> i \<and> i < 0 then Inr (xs ! nat (int (length xs) + i))
      else Inl IndexError)"

section \<open>The colour palette (linelists_window.py, lines 32-42)\<close>

text \<open>
  The members of \<open>Qt.GlobalColor\<close> that \<open>ID_COLORS\<close> uses.
\<close>

datatype GlobalColor =
  Qt_black | Qt_red | Qt_green | Qt_blue | Qt_cyan | Qt_magenta
  | Qt_darkRed | Qt_darkGreen | Qt_darkBlue

text \<open>
  A \<open>QColor\<close>, as far as the code reads it: \<open>red()\<close>, \<open>green()\<close> and \<open>blue()\<close>
  each return an integer in \<open>0 .. 255\<close>.
\<close>

record QColor =
  red :: "8 word"
  green :: "8 word"
  blue :: "8 word"

text \<open>
  \<open>QColor(orig_color)\<close> for a member of \<open>Qt.GlobalColor\<close>.  The table is Qt's, not the
  repository's: black \<open>#000000\<close>, red \<open>#ff0000\<close>, green \<open>#00ff00\<close>, blue \<open>#0000ff\<close>,
  cyan \<open>#00ffff\<close>, magenta \<open>#ff00ff\<close>, darkRed \<open>#800000\<close>, darkGreen \<open>#008000\<close>,
  darkBlue \<open>#000080\<close>.
\<close>

fun QColor_of :: "GlobalColor \<Rightarrow> QColor" where
  "QColor_of Qt_black = \<lparr>red = 0, green = 0, blue = 0\<rparr>"
| "QColor_of Qt_red = \<lparr>red = 255, green = 0, blue = 0\<rparr>"
| "QColor_of Qt_green = \<lparr>red = 0, green = 255, blue = 0\<rparr>"
| "QColor_of Qt_blue = \<lparr>red = 0, green = 0, blue = 255\<rparr>"
| "QColor_of Qt_cyan = \<lparr>red = 0, green = 255, blue = 255\<rparr>"
| "QColor_of Qt_magenta = \<lparr>red = 255, green = 0, blue = 255\<rparr>"
| "QColor_of Qt_darkRed = \<lparr>red = 128, green = 0, blue = 0\<rparr>"
| "QColor_of Qt_darkGreen = \<lparr>red = 0, green = 128, blue = 0\<rparr>"
| "QColor_of Qt_darkBlue = \<lparr>red = 0, green = 0, blue = 128\<rparr>"

text \<open>
  \<open>ID_COLORS\<close>: a dict, iterated in insertion order, so an association list.
\<close>

definition ID_COLORS :: "(string \<times> GlobalColor) list" where
  "ID_COLORS =
     [(''black'', Qt_black), (''red'', Qt_red), (''green'', Qt_green),
      (''blue'', Qt_blue), (''cyan'', Qt_cyan), (''magenta'', Qt_magenta),
      (''dark red'', Qt_darkRed), (''dark green'', Qt_darkGreen),
      (''dark blue'', Qt_darkBlue)]"

section \<open>Colour resolution (LineListTableModel.__init__, lines 615-630)\<close>

text \<open>
  \<open>dist = abs(orig_rgb.red() - r) + abs(orig_rgb.green() - g) + abs(orig_rgb.blue() - b)\<close>,
  on Python's unbounded integers.
\<close>

definition color_dist :: "QColor \<Rightarrow> QColor \<Rightarrow> int" where
  "color_dist orig_rgb cell =
     \<bar>uint (red orig_rgb) - uint (red cell)\<bar>
     + \<bar>uint (green orig_rgb) - uint (green cell)\<bar>
     + \<bar>uint (blue orig_rgb) - uint (blue cell)\<bar>"

text \<open>
  The loop over \<open>ID_COLORS.items()\<close>.  Its state is \<open>(min_dist, result)\<close>; \<open>result\<close>
  starts as the cell itself (\<open>Inl\<close>) and becomes a palette colour (\<open>Inr\<close>) at the
  first entry that is nearer than \<open>min_dist\<close>.
\<close>

fun color_loop ::
  "QColor \<Rightarrow> (string \<times> GlobalColor) list \<Rightarrow> int \<times> (QColor + GlobalColor)
   \<Rightarrow> int \<times> (QColor + GlobalColor)" where
  "color_loop cell [] st = st"
| "color_loop cell ((color_name, orig_color) # rest) (min_dist, result) =
     (let dist = color_dist (QColor_of orig_color) cell
      in if dist < min_dist then color_loop cell rest (dist, Inr orig_color)
         else color_loop cell rest (min_dist, result))"

text \<open>
  \<open>value == result\<close> in the list comprehension of line 628: a palette colour equals
  \<open>result\<close> when \<open>result\<close> is that same palette colour.  While \<open>result\<close> is still the
  cell, a \<open>QColor\<close> object, no palette member is taken to equal it.
\<close>

fun value_eq :: "GlobalColor \<Rightarrow> QColor + GlobalColor \<Rightarrow> bool" where
  "value_eq v (Inr g) = (v = g)"
| "value_eq v (Inl c) = False"

text \<open>
  Lines 616-628: \<open>min_dist = 100000\<close>, \<open>result = cell\<close>, the loop, and then
  \<open>key = [k for k, value in ID_COLORS.items() if value == result][0]\<close>.
\<close>

definition resolve_color :: "QColor \<Rightarrow> error + string" where
  "resolve_color cell =
     (let (min_dist, result) = color_loop cell ID_COLORS (100000, Inl cell)
      in py_index (map fst (filter (\<lambda>(k, v). value_eq v result) ID_COLORS)) 0)"

section \<open>Line lists, as the window and the table model read them\<close>

text \<open>
  A cell of a row: \<open>isinstance(cell, QColor)\<close> separates colours from every other
  value, which is only ever passed to \<open>str\<close>.
\<close>

datatype 'v cell = Color QColor | Value 'v

text \<open>
  The line list (\<open>core.linelist.LineList\<close>, an astropy table) through the accessors
  this file uses: iteration over the rows, \<open>colnames\<close>, \<open>columns[i].unit\<close> (the field
  \<open>units\<close>), \<open>tooltips\<close> (None or a list of texts) and \<open>name\<close>.
\<close>

record ('v, 'u) LineList =
  name :: string
  colnames :: "string list"
  units :: "'u list"
  tooltips :: "string list option"
  rows :: "'v cell list list"

text \<open>
  \<open>len(table[cname].data)\<close>: KeyError when the table has no column of that name;
  otherwise the column has one entry for each row of the table.
\<close>

definition len_column_data :: "('v, 'u) LineList \<Rightarrow> string \<Rightarrow> error + nat" where
  "len_column_data table cname =
     (if cname \<in> set (colnames table) then Inr (length (rows table)) else Inl KeyError)"

section \<open>Floats and texts\<close>

text \<open>
  A Python float: a finite binary64 number, held as the rational it denotes (so that
  \<open>0.0\<close> and \<open>-0.0\<close> coincide, as they do under \<open>==\<close> and \<open><\<close>), an infinity, or NaN.
\<close>

datatype pyfloat = Finite rat | PosInf | NegInf | NaN

text \<open>\<open>l < r\<close> on floats: false as soon as one side is NaN.\<close>

fun float_lt :: "pyfloat \<Rightarrow> pyfloat \<Rightarrow> bool" where
  "float_lt NaN _ = False"
| "float_lt _ NaN = False"
| "float_lt (Finite a) (Finite b) = (a < b)"
| "float_lt (Finite a) PosInf = True"
| "float_lt (Finite a) NegInf = False"
| "float_lt PosInf _ = False"
| "float_lt NegInf (Finite b) = True"
| "float_lt NegInf PosInf = True"
| "float_lt NegInf NegInf = False"

text \<open>\<open>a != b\<close> on floats: true as soon as one side is NaN.\<close>

fun float_ne :: "pyfloat \<Rightarrow> pyfloat \<Rightarrow> bool" where
  "float_ne NaN _ = True"
| "float_ne _ NaN = True"
| "float_ne a b = (a \<noteq> b)"

text \<open>
  \<open>str(left) < str(right)\<close>: Python compares strings code point by code point; at the
  first position where they differ the smaller code point decides, and a proper prefix
  is smaller than the longer string.  A text is a \<open>string\<close> here, so its code points
  are those up to 255.
\<close>

fun str_lt :: "string \<Rightarrow> string \<Rightarrow> bool" where
  "str_lt [] [] = False"
| "str_lt [] (y # ys) = True"
| "str_lt (x # xs) [] = False"
| "str_lt (x # xs) (y # ys) =
     (if x = y then str_lt xs ys else (of_char x :: nat) < of_char y)"

text \<open>\<open>str(n)\<close> for a non-negative integer: its decimal digits.\<close>

fun str_nat :: "nat \<Rightarrow> string" where
  "str_nat n =
     (if n < 10 then [''0123456789'' ! n]
      else str_nat (n div 10) @ [''0123456789'' ! (n mod 10)])"

declare str_nat.simps [simp del]

text \<open>
  The builtin \<open>float\<close> on a text is a parameter of the definitions below, of type
  \<open>string \<Rightarrow> error + pyfloat\<close> (ValueError when the text is no number).  To run them
  on concrete texts, \<open>decimal_float\<close> reads the plain decimal literals
  \<open>digits\<close>, \<open>digits.\<close>, \<open>.digits\<close> and \<open>digits.digits\<close> and refuses every other text; on
  a literal whose value is a binary64 number (\<open>3.5\<close>, \<open>10\<close>, \<open>100.0\<close>) that is the
  builtin's result.
\<close>

definition is_digit :: "char \<Rightarrow> bool" where
  "is_digit c = (48 \<le> (of_char c :: nat) \<and> (of_char c :: nat) \<le> 57)"

fun digits_value :: "nat \<Rightarrow> string \<Rightarrow> nat" where
  "digits_value acc [] = acc"
| "digits_value acc (c # cs) = digits_value (10 * acc + (of_char c - 48)) cs"

definition decimal_float :: "string \<Rightarrow> error + pyfloat" where
  "decimal_float s =
     (let ip = takeWhile is_digit s; rest = dropWhile is_digit s
      in if rest = [] then
           (if ip = [] then Inl ValueError else Inr (Finite (of_nat (digits_value 0 ip))))
         else if hd rest = CHR ''.'' \<and> list_all is_digit (tl rest) \<and> (ip \<noteq> [] \<or> tl rest \<noteq> [])
         then Inr (Finite (of_nat (digits_value 0 (ip @ tl rest)) / 10 ^ length (tl rest)))
         else Inl ValueError)"

section \<open>The wavelength range dialog (LineListsWindow, lines 279-316)\<close>

text \<open>
  A \<open>QLineEdit\<close> with its validator, and a \<open>QLabel\<close>, as far as the code uses them.
\<close>

record QLineEdit =
  field_text :: string
  hasAcceptableInput :: bool

record QLabel =
  label_text :: string
  styleSheet :: string

text \<open>\<open>Quantity(a, units)\<close>: a float with its unit.\<close>

type_synonym 'u Quantity = "pyfloat \<times> 'u"

type_synonym 'u wave_range = "'u Quantity option \<times> 'u Quantity option"

definition NLINES_WARN :: nat where
  "NLINES_WARN = 150"

text \<open>
  \<open>_get_range_from_textfields\<close>.  \<open>data_item_units\<close> is the list of the
  \<open>spectral_axis_unit\<close>s of \<open>self.plot_window.listDataItems()\<close>, of which the code takes
  element 0.
\<close>

definition get_range_from_textfields ::
  "(string \<Rightarrow> error + pyfloat) \<Rightarrow> 'u list \<Rightarrow> QLineEdit \<Rightarrow> QLineEdit
   \<Rightarrow> error + 'u wave_range" where
  "get_range_from_textfields float data_item_units min_text max_text =
     (if hasAcceptableInput min_text \<and> hasAcceptableInput max_text then
        (case float (field_text min_text) of
           Inl e \<Rightarrow> Inl e
         | Inr amin \<Rightarrow>
            (case float (field_text max_text) of
               Inl e \<Rightarrow> Inl e
             | Inr amax \<Rightarrow>
                (if float_ne amax amin then
                   (case py_index data_item_units 0 of
                      Inl e \<Rightarrow> Inl e
                    | Inr axis_unit \<Rightarrow> Inr (Some (amin, axis_unit), Some (amax, axis_unit)))
                 else Inr (None, None))))
      else Inr (None, None))"

text \<open>
  Lines 302-311 of \<open>_compute_nlines_in_waverange\<close>: what the method does with the
  range once it is resolved.  \<open>extract_range\<close> is the line list's own method
  (\<open>core.linelist\<close>), a parameter here; it may raise (UnitConversionError).
\<close>

definition update_nlines_label ::
  "string \<Rightarrow> (('v, 'u) LineList \<Rightarrow> 'w wave_range \<Rightarrow> error + ('v, 'u) LineList)
   \<Rightarrow> ('v, 'u) LineList \<Rightarrow> 'w wave_range \<Rightarrow> QLabel \<Rightarrow> error + QLabel" where
  "update_nlines_label WAVELENGTH_COLUMN extract_range line_list r label =
     (case r of (amin, amax) \<Rightarrow>
        if amin \<noteq> None \<or> amax \<noteq> None then
          (case extract_range line_list (amin, amax) of
             Inl e \<Rightarrow> Inl e
           | Inr extracted \<Rightarrow>
              (case len_column_data extracted WAVELENGTH_COLUMN of
                 Inl e \<Rightarrow> Inl e
               | Inr nlines \<Rightarrow>
                  Inr (label\<lparr>label_text := str_nat nlines,
                             styleSheet := ''color:''
                               @ (if nlines < NLINES_WARN then ''black'' else ''red'')\<rparr>)))
        else Inr label)"

text \<open>\<open>_compute_nlines_in_waverange\<close>: the label it returns.\<close>

definition compute_nlines_in_waverange ::
  "string \<Rightarrow> (string \<Rightarrow> error + pyfloat) \<Rightarrow> 'w list
   \<Rightarrow> (('v, 'u) LineList \<Rightarrow> 'w wave_range \<Rightarrow> error + ('v, 'u) LineList)
   \<Rightarrow> ('v, 'u) LineList \<Rightarrow> QLineEdit \<Rightarrow> QLineEdit \<Rightarrow> QLabel \<Rightarrow> error + QLabel" where
  "compute_nlines_in_waverange WAVELENGTH_COLUMN float data_item_units extract_range
       line_list min_text max_text label =
     (case get_range_from_textfields float data_item_units min_text max_text of
        Inl e \<Rightarrow> Inl e
      | Inr r \<Rightarrow> update_nlines_label WAVELENGTH_COLUMN extract_range line_list r label)"

text \<open>
  Lines 315-316 of \<open>_build_view\<close>: the line list that is handed to the table model.
  \<open>truthy\<close> is the truth value of a \<open>Quantity\<close> (astropy's, a parameter); None is false.
\<close>

definition build_view_linelist ::
  "('w Quantity \<Rightarrow> bool)
   \<Rightarrow> (('v, 'u) LineList \<Rightarrow> 'w wave_range \<Rightarrow> error + ('v, 'u) LineList)
   \<Rightarrow> ('v, 'u) LineList \<Rightarrow> 'w wave_range \<Rightarrow> error + ('v, 'u) LineList" where
  "build_view_linelist truthy extract_range line_list waverange =
     (if (case fst waverange of None \<Rightarrow> False | Some q \<Rightarrow> truthy q)
         \<and> (case snd waverange of None \<Rightarrow> False | Some q \<Rightarrow> truthy q)
      then extract_range line_list waverange
      else Inr line_list)"


text \<open>
  Modelled from the spec: \<open>extract_range\<close> of \<open>core.linelist\<close>, which is not part of the
  source at hand.  The spec gives it as a range-extraction operation taking a (min, max)
  pair and returning a filtered source of the same shape, an absent bound meaning
  unbounded on that side; on rows with the wavelengths 4500, 6000, 3000 the range
  (4000, 5000) keeps one row.  Here the wavelength is the first cell of a row, and units
  are taken to agree.
\<close>

fun in_wave_range :: "'w wave_range \<Rightarrow> pyfloat cell list \<Rightarrow> bool" where
  "in_wave_range (amin, amax) (Value w # _) =
     ((case amin of None \<Rightarrow> True | Some (a, _) \<Rightarrow> \<not> float_lt w a)
      \<and> (case amax of None \<Rightarrow> True | Some (b, _) \<Rightarrow> \<not> float_lt b w))"
| "in_wave_range _ _ = False"

definition extract_range_by_wavelength ::
  "(pyfloat, 'u) LineList \<Rightarrow> 'w wave_range \<Rightarrow> error + (pyfloat, 'u) LineList" where
  "extract_range_by_wavelength line_list r =
     Inr (line_list\<lparr>rows := filter (in_wave_range r) (rows line_list)\<rparr>)"

section \<open>The table model (LineListTableModel, lines 572-684)\<close>

text \<open>
  A value handed to Qt: \<open>QVariant()\<close>, or a text.
\<close>

datatype QVariant = QVariant_null | QVariant_str string

text \<open>
  The model object.  \<open>linelist\<close> is \<open>self._linelist\<close>, a reference to the caller's line
  list: a later mutation of that object is an update of this field.  \<open>nrows\<close>, \<open>ncols\<close>
  and \<open>row_cells\<close> are the model's own.
\<close>

record ('v, 'u) LineListTableModel =
  linelist :: "('v, 'u) LineList"
  nrows :: nat
  ncols :: nat
  row_cells :: "QVariant list list"

text \<open>
  Lines 615-633, one cell: a colour is resolved to its palette name, every other value
  goes through \<open>str\<close> (the builtin, a parameter).
\<close>

fun cell_variant :: "('v \<Rightarrow> string) \<Rightarrow> 'v cell \<Rightarrow> error + QVariant" where
  "cell_variant str (Color c) =
     (case resolve_color c of Inl e \<Rightarrow> Inl e | Inr key \<Rightarrow> Inr (QVariant_str key))"
| "cell_variant str (Value v) = Inr (QVariant_str (str v))"

text \<open>The inner loop, \<open>for rindex in range(len(row))\<close>, appending to \<open>cells\<close>.\<close>

fun cells_loop :: "('v \<Rightarrow> string) \<Rightarrow> 'v cell list \<Rightarrow> QVariant list \<Rightarrow> error + QVariant list" where
  "cells_loop str [] cells = Inr cells"
| "cells_loop str (cell # rest) cells =
     (case cell_variant str cell of
        Inl e \<Rightarrow> Inl e
      | Inr v \<Rightarrow> cells_loop str rest (cells @ [v]))"

text \<open>
  The outer loop, \<open>for row in self._linelist\<close>: the row's cells are appended to
  \<open>_row_cells\<close>, then \<open>_nrows\<close> and \<open>_ncols\<close> are set, the latter from \<open>_row_cells[0]\<close>.
\<close>

fun rows_loop ::
  "('v \<Rightarrow> string) \<Rightarrow> 'v cell list list \<Rightarrow> ('v, 'u) LineListTableModel
   \<Rightarrow> error + ('v, 'u) LineListTableModel" where
  "rows_loop str [] m = Inr m"
| "rows_loop str (row # rest) m =
     (case cells_loop str row [] of
        Inl e \<Rightarrow> Inl e
      | Inr cells \<Rightarrow>
         (let rc = row_cells m @ [cells]
          in case py_index rc 0 of
               Inl e \<Rightarrow> Inl e
             | Inr first_row \<Rightarrow>
                 rows_loop str rest
                   (m\<lparr>nrows := length rc, ncols := length first_row, row_cells := rc\<rparr>)))"

definition LineListTableModel_init ::
  "('v \<Rightarrow> string) \<Rightarrow> ('v, 'u) LineList \<Rightarrow> error + ('v, 'u) LineListTableModel" where
  "LineListTableModel_init str line_list =
     rows_loop str (rows line_list)
       \<lparr>linelist = line_list, nrows = 0, ncols = 0, row_cells = []\<rparr>"

definition rowCount :: "('v, 'u) LineListTableModel \<Rightarrow> nat" where
  "rowCount m = nrows m"

definition columnCount :: "('v, 'u) LineListTableModel \<Rightarrow> nat" where
  "columnCount m = ncols m"

text \<open>
  The item roles and orientations of Qt that the code tells apart.  The \<open>role\<close> of
  \<open>data\<close> defaults to None.
\<close>

datatype ItemDataRole = DisplayRole | ToolTipRole | OtherRole nat

datatype Orientation = Horizontal | Vertical

record QModelIndex =
  row :: int
  column :: int

definition data :: "('v, 'u) LineListTableModel \<Rightarrow> QModelIndex \<Rightarrow> ItemDataRole option
                    \<Rightarrow> error + QVariant" where
  "data m index role =
     (if role \<noteq> Some DisplayRole then Inr QVariant_null
      else case py_index (row_cells m) (row index) of
             Inl e \<Rightarrow> Inl e
           | Inr cells \<Rightarrow> py_index cells (column index))"



section \<open>The sort comparator (SortModel.lessThan, lines 694-708)\<close>

text \<open>
  \<open>float(x)\<close> and \<open>str(x)\<close> on what \<open>QModelIndex.data()\<close> returns: a text, or None for
  \<open>QVariant()\<close>.
\<close>

fun py_float :: "(string \<Rightarrow> error + pyfloat) \<Rightarrow> QVariant \<Rightarrow> error + pyfloat" where
  "py_float float (QVariant_str s) = float s"
| "py_float float QVariant_null = Inl TypeError"

fun py_str :: "QVariant \<Rightarrow> string" where
  "py_str (QVariant_str s) = s"
| "py_str QVariant_null = ''None''"

text \<open>
  The \<open>try\<close> block, \<open>l = float(left_data); r = float(right_data); return l < r\<close>, and
  the bare \<open>except\<close> that catches whatever it raises.
\<close>

definition lessThan_try ::
  "(string \<Rightarrow> error + pyfloat) \<Rightarrow> QVariant \<Rightarrow> QVariant \<Rightarrow> error + bool" where
  "lessThan_try float left_data right_data =
     (case py_float float left_data of
        Inl e \<Rightarrow> Inl e
      | Inr l \<Rightarrow>
         (case py_float float right_data of
            Inl e \<Rightarrow> Inl e
          | Inr r \<Rightarrow> Inr (float_lt l r)))"

definition SortModel_lessThan ::
  "(string \<Rightarrow> error + pyfloat) \<Rightarrow> QVariant \<Rightarrow> QVariant \<Rightarrow> error + bool" where
  "SortModel_lessThan float left_data right_data =
     (case lessThan_try float left_data right_data of
        Inr b \<Rightarrow> Inr b
      | Inl e \<Rightarrow> Inr (str_lt (py_str left_data) (py_str right_data)))"

section \<open>Example line lists\<close>

text \<open>
  Small line lists on which the definitions are run: three lines with the wavelengths
  4500, 6000 and 3000; a two by two table of texts with units and tooltips, and the
  table model built from it; a list without rows; a list whose second row is shorter
  than its first.
\<close>

definition three_lines :: "(pyfloat, string) LineList" where
  "three_lines =
     \<lparr>name = ''lines'', colnames = [''Wavelength'', ''Species''],
      units = [''Angstrom'', ''None''], tooltips = None,
      rows = [[Value (Finite 4500), Value (Finite 1)],
              [Value (Finite 6000), Value (Finite 2)],
              [Value (Finite 3000), Value (Finite 3)]]\<rparr>"

definition two_by_two :: "(string, string) LineList" where
  "two_by_two =
     \<lparr>name = ''letters'', colnames = [''Wavelength'', ''Species''],
      units = [''Angstrom'', ''None''], tooltips = Some [''rest wavelength'', ''ion''],
      rows = [[Value ''a'', Value ''b''], [Value ''c'', Value ''d'']]\<rparr>"

definition two_by_two_model :: "(string, string) LineListTableModel" where
  "two_by_two_model =
     \<lparr>linelist = two_by_two, nrows = 2, ncols = 2,
      row_cells = [[QVariant_str ''a'', QVariant_str ''b''],
                   [QVariant_str ''c'', QVariant_str ''d'']]\<rparr>"

definition no_lines :: "(string, string) LineList" where
  "no_lines =
     \<lparr>name = ''empty'', colnames = [''Wavelength'', ''Species''],
      units = [''Angstrom'', ''None''], tooltips = None, rows = []\<rparr>"

definition ragged_lines :: "(string, string) LineList" where
  "ragged_lines =
     \<lparr>name = ''ragged'', colnames = [''Wavelength'', ''Species'', ''Color''],
      units = [''Angstrom'', ''None'', ''None''], tooltips = None,
      rows = [[Value ''a'', Value ''b'', Color \<lparr>red = 250, green = 10, blue = 10\<rparr>],
              [Value ''d'']]\<rparr>"

section \<open>Python indexing\<close>

lemma py_index_nonneg:
  "0 \<le> i \<Longrightarrow> i < int (length xs) \<Longrightarrow> py_index xs i = Inr (xs ! nat i)"
  by (simp add: py_index_def)

lemma py_index_outside:
  "i < - int (length xs) \<or> int (length xs) \<le> i \<Longrightarrow> py_index xs i = Inl IndexError"
  by (auto simp: py_index_def Let_def)

lemma py_index_negative:
  "- int (length xs) \<le> i \<Longrightarrow> i < 0 \<Longrightarrow> py_index xs i = py_index xs (int (length xs) + i)"
  by (auto simp: py_index_def Let_def)

lemma py_index_0_nonempty: "xs \<noteq> [] \<Longrightarrow> py_index xs 0 = Inr (hd xs)"
  by (cases xs) (simp_all add: py_index_def)

section \<open>The colour loop finds the first nearest palette entry\<close>

text \<open>
  Started from \<open>(m, r)\<close>, the loop either leaves the state as it is, when no entry is
  nearer than \<open>m\<close>, or ends on the first entry among those at the least distance.
\<close>

lemma color_loop_cases:
  "color_loop cell ps (m, r) = (m', r') \<Longrightarrow>
     (m' = m \<and> r' = r \<and> (\<forall>p \<in> set ps. m \<le> color_dist (QColor_of (snd p)) cell))
   \<or> (\<exists>i < length ps. r' = Inr (snd (ps ! i))
          \<and> m' = color_dist (QColor_of (snd (ps ! i))) cell \<and> m' < m
          \<and> (\<forall>j < length ps. m' \<le> color_dist (QColor_of (snd (ps ! j))) cell)
          \<and> (\<forall>j < i. m' < color_dist (QColor_of (snd (ps ! j))) cell))"
proof (induction ps arbitrary: m r)
  case Nil
  then show ?case by simp
next
  case (Cons p ps)
  obtain k g where p: "p = (k, g)" by (cases p)
  let ?d = "color_dist (QColor_of g) cell"
  show ?case
  proof (cases "?d < m")
    case True
    with Cons.prems p have run: "color_loop cell ps (?d, Inr g) = (m', r')"
      by (simp add: Let_def)
    from Cons.IH [OF run] show ?thesis
    proof
      assume a: "m' = ?d \<and> r' = Inr g
                 \<and> (\<forall>q \<in> set ps. ?d \<le> color_dist (QColor_of (snd q)) cell)"
      have "\<forall>j < length (p # ps). m' \<le> color_dist (QColor_of (snd ((p # ps) ! j))) cell"
      proof (intro allI impI)
        fix j assume "j < length (p # ps)"
        then show "m' \<le> color_dist (QColor_of (snd ((p # ps) ! j))) cell"
          using a p by (cases j) auto
      qed
      with a p True have "0 < length (p # ps) \<and> r' = Inr (snd ((p # ps) ! 0))
          \<and> m' = color_dist (QColor_of (snd ((p # ps) ! 0))) cell \<and> m' < m
          \<and> (\<forall>j < length (p # ps). m' \<le> color_dist (QColor_of (snd ((p # ps) ! j))) cell)
          \<and> (\<forall>j < (0::nat). m' < color_dist (QColor_of (snd ((p # ps) ! j))) cell)"
        by simp
      then show ?thesis by blast
    next
      assume "\<exists>i < length ps. r' = Inr (snd (ps ! i))
          \<and> m' = color_dist (QColor_of (snd (ps ! i))) cell \<and> m' < ?d
          \<and> (\<forall>j < length ps. m' \<le> color_dist (QColor_of (snd (ps ! j))) cell)
          \<and> (\<forall>j < i. m' < color_dist (QColor_of (snd (ps ! j))) cell)"
      then obtain i where i: "i < length ps" "r' = Inr (snd (ps ! i))"
          "m' = color_dist (QColor_of (snd (ps ! i))) cell" "m' < ?d"
          "\<forall>j < length ps. m' \<le> color_dist (QColor_of (snd (ps ! j))) cell"
          "\<forall>j < i. m' < color_dist (QColor_of (snd (ps ! j))) cell"
        by blast
      have le: "\<forall>j < length (p # ps). m' \<le> color_dist (QColor_of (snd ((p # ps) ! j))) cell"
      proof (intro allI impI)
        fix j assume "j < length (p # ps)"
        then show "m' \<le> color_dist (QColor_of (snd ((p # ps) ! j))) cell"
          using i p by (cases j) auto
      qed
      have lt: "\<forall>j < Suc i. m' < color_dist (QColor_of (snd ((p # ps) ! j))) cell"
      proof (intro allI impI)
        fix j assume "j < Suc i"
        then show "m' < color_dist (QColor_of (snd ((p # ps) ! j))) cell"
          using i p by (cases j) auto
      qed
      from i True le lt have "Suc i < length (p # ps) \<and> r' = Inr (snd ((p # ps) ! Suc i))
          \<and> m' = color_dist (QColor_of (snd ((p # ps) ! Suc i))) cell \<and> m' < m
          \<and> (\<forall>j < length (p # ps). m' \<le> color_dist (QColor_of (snd ((p # ps) ! j))) cell)
          \<and> (\<forall>j < Suc i. m' < color_dist (QColor_of (snd ((p # ps) ! j))) cell)"
        by simp
      then show ?thesis by blast
    qed
  next
    case False
    with Cons.prems p have run: "color_loop cell ps (m, r) = (m', r')"
      by (simp add: Let_def)
    from Cons.IH [OF run] show ?thesis
    proof
      assume a: "m' = m \<and> r' = r
                 \<and> (\<forall>q \<in> set ps. m \<le> color_dist (QColor_of (snd q)) cell)"
      with False p show ?thesis by auto
    next
      assume "\<exists>i < length ps. r' = Inr (snd (ps ! i))
          \<and> m' = color_dist (QColor_of (snd (ps ! i))) cell \<and> m' < m
          \<and> (\<forall>j < length ps. m' \<le> color_dist (QColor_of (snd (ps ! j))) cell)
          \<and> (\<forall>j < i. m' < color_dist (QColor_of (snd (ps ! j))) cell)"
      then obtain i where i: "i < length ps" "r' = Inr (snd (ps ! i))"
          "m' = color_dist (QColor_of (snd (ps ! i))) cell" "m' < m"
          "\<forall>j < length ps. m' \<le> color_dist (QColor_of (snd (ps ! j))) cell"
          "\<forall>j < i. m' < color_dist (QColor_of (snd (ps ! j))) cell"
        by blast
      have le: "\<forall>j < length (p # ps). m' \<le> color_dist (QColor_of (snd ((p # ps) ! j))) cell"
      proof (intro allI impI)
        fix j assume "j < length (p # ps)"
        then show "m' \<le> color_dist (QColor_of (snd ((p # ps) ! j))) cell"
          using i p False by (cases j) auto
      qed
      have lt: "\<forall>j < Suc i. m' < color_dist (QColor_of (snd ((p # ps) ! j))) cell"
      proof (intro allI impI)
        fix j assume "j < Suc i"
        then show "m' < color_dist (QColor_of (snd ((p # ps) ! j))) cell"
          using i p False by (cases j) auto
      qed
      from i le lt have "Suc i < length (p # ps) \<and> r' = Inr (snd ((p # ps) ! Suc i))
          \<and> m' = color_dist (QColor_of (snd ((p # ps) ! Suc i))) cell \<and> m' < m
          \<and> (\<forall>j < length (p # ps). m' \<le> color_dist (QColor_of (snd ((p # ps) ! j))) cell)
          \<and> (\<forall>j < Suc i. m' < color_dist (QColor_of (snd ((p # ps) ! j))) cell)"
        by simp
      then show ?thesis by blast
    qed
  qed
qed

text \<open>No distance reaches the initial \<open>min_dist\<close> of 100000: it is at most 3 * 255.\<close>

lemma abs_uint8_diff: "\<bar>uint (x :: 8 word) - uint (y :: 8 word)\<bar> \<le> 255"
proof -
  have "0 \<le> uint x" "uint x < 256" "0 \<le> uint y" "uint y < 256"
    using uint_lt2p [of x] uint_lt2p [of y] by simp_all
  then show ?thesis by arith
qed

lemma color_dist_bound: "color_dist a b \<le> 765"
  unfolding color_dist_def
  using abs_uint8_diff [of "red a" "red b"] abs_uint8_diff [of "green a" "green b"]
    abs_uint8_diff [of "blue a" "blue b"]
  by arith

text \<open>The key lookup of line 628 returns the name of the entry the loop ended on.\<close>

lemma filter_snd_distinct:
  "distinct (map snd ps) \<Longrightarrow> i < length ps \<Longrightarrow>
   filter (\<lambda>(k, v). v = snd (ps ! i)) ps = [ps ! i]"
proof (induction ps arbitrary: i)
  case Nil
  then show ?case by simp
next
  case (Cons p ps)
  obtain k g where p: "p = (k, g)" by (cases p)
  from Cons.prems have notin: "g \<notin> snd ` set ps" and d: "distinct (map snd ps)"
    using p by simp_all
  show ?case
  proof (cases i)
    case 0
    have "filter (\<lambda>(k, v). v = g) ps = []"
      using notin by (force simp: filter_empty_conv)
    with 0 p show ?thesis by simp
  next
    case (Suc n)
    with Cons.prems have n: "n < length ps" by simp
    then have "snd (ps ! n) \<in> snd ` set ps" by simp
    with notin have "g \<noteq> snd (ps ! n)" by auto
    with Cons.IH [OF d n] Suc p show ?thesis by simp
  qed
qed

lemma ID_COLORS_distinct: "distinct (map snd ID_COLORS)"
  by (simp add: ID_COLORS_def)

lemma ID_COLORS_length: "length ID_COLORS = 9"
  by (simp add: ID_COLORS_def)

lemma key_lookup:
  assumes "i < length ID_COLORS"
  shows "py_index (map fst (filter (\<lambda>(k, v). value_eq v (Inr (snd (ID_COLORS ! i)))) ID_COLORS)) 0
         = Inr (fst (ID_COLORS ! i))"
proof -
  have "filter (\<lambda>(k, v). value_eq v (Inr (snd (ID_COLORS ! i)))) ID_COLORS
        = filter (\<lambda>(k, v). v = snd (ID_COLORS ! i)) ID_COLORS"
    by simp
  also have "\<dots> = [ID_COLORS ! i]"
    using filter_snd_distinct [OF ID_COLORS_distinct assms] .
  finally show ?thesis by (simp add: py_index_def)
qed

lemma resolve_color_first_min:
  "\<exists>i < length ID_COLORS.
      resolve_color cell = Inr (fst (ID_COLORS ! i))
      \<and> (\<forall>j < length ID_COLORS.
            color_dist (QColor_of (snd (ID_COLORS ! i))) cell
            \<le> color_dist (QColor_of (snd (ID_COLORS ! j))) cell)
      \<and> (\<forall>j < i.
            color_dist (QColor_of (snd (ID_COLORS ! i))) cell
            < color_dist (QColor_of (snd (ID_COLORS ! j))) cell)"
proof -
  obtain m' r' where run: "color_loop cell ID_COLORS (100000, Inl cell) = (m', r')"
    by (cases "color_loop cell ID_COLORS (100000, Inl cell)")
  have nonempty: "(''black'', Qt_black) \<in> set ID_COLORS"
    by (simp add: ID_COLORS_def)
  have "color_dist (QColor_of Qt_black) cell < 100000"
    using color_dist_bound [of "QColor_of Qt_black" cell] by simp
  with nonempty have "\<not> (\<forall>p \<in> set ID_COLORS. 100000 \<le> color_dist (QColor_of (snd p)) cell)"
    by force
  with color_loop_cases [OF run] obtain i where i: "i < length ID_COLORS"
      "r' = Inr (snd (ID_COLORS ! i))"
      "m' = color_dist (QColor_of (snd (ID_COLORS ! i))) cell"
      "\<forall>j < length ID_COLORS. m' \<le> color_dist (QColor_of (snd (ID_COLORS ! j))) cell"
      "\<forall>j < i. m' < color_dist (QColor_of (snd (ID_COLORS ! j))) cell"
    by blast
  have "resolve_color cell = Inr (fst (ID_COLORS ! i))"
    using run i(2) key_lookup [OF i(1)] by (simp add: resolve_color_def)
  with i show ?thesis by blast
qed

lemma resolve_250_10_10: "resolve_color \<lparr>red = 250, green = 10, blue = 10\<rparr> = Inr ''red''"
  by (simp add: resolve_color_def ID_COLORS_def color_dist_def py_index_def)

section \<open>What the constructor builds\<close>

lemma cell_variant_total: "\<exists>v. cell_variant str c = Inr v"
proof (cases c)
  case (Color q)
  then show ?thesis using resolve_color_first_min [of q] by auto
next
  case (Value v)
  then show ?thesis by simp
qed

lemma cells_loop_result:
  "\<exists>vs. list_all2 (\<lambda>c v. cell_variant str c = Inr v) cs vs
        \<and> cells_loop str cs acc = Inr (acc @ vs)"
proof (induction cs arbitrary: acc)
  case Nil
  then show ?case by simp
next
  case (Cons c cs)
  obtain v where v: "cell_variant str c = Inr v"
    using cell_variant_total by blast
  from Cons.IH [of "acc @ [v]"] obtain vs where
    vs: "list_all2 (\<lambda>c v. cell_variant str c = Inr v) cs vs"
        "cells_loop str cs (acc @ [v]) = Inr ((acc @ [v]) @ vs)"
    by blast
  have "list_all2 (\<lambda>c v. cell_variant str c = Inr v) (c # cs) (v # vs)"
    using v vs(1) by simp
  moreover have "cells_loop str (c # cs) acc = Inr (acc @ (v # vs))"
    using v vs(2) by simp
  ultimately show ?case by blast
qed

lemma rows_loop_result:
  "\<exists>css. list_all2 (list_all2 (\<lambda>c v. cell_variant str c = Inr v)) rs css
         \<and> rows_loop str rs m =
             Inr (if rs = [] then m
                  else m\<lparr>nrows := length (row_cells m @ css),
                         ncols := length (hd (row_cells m @ css)),
                         row_cells := row_cells m @ css\<rparr>)"
proof (induction rs arbitrary: m)
  case Nil
  then show ?case by simp
next
  case (Cons r rs)
  obtain cells where cells: "list_all2 (\<lambda>c v. cell_variant str c = Inr v) r cells"
      "cells_loop str r [] = Inr cells"
    using cells_loop_result [of str r "[]"] by auto
  let ?rc = "row_cells m @ [cells]"
  let ?m1 = "m\<lparr>nrows := length ?rc, ncols := length (hd ?rc), row_cells := ?rc\<rparr>"
  have step: "rows_loop str (r # rs) m = rows_loop str rs ?m1"
    using cells(2) py_index_0_nonempty [of ?rc] by (simp add: Let_def)
  from Cons.IH [of ?m1] obtain css where
    css: "list_all2 (list_all2 (\<lambda>c v. cell_variant str c = Inr v)) rs css"
         "rows_loop str rs ?m1 =
             Inr (if rs = [] then ?m1
                  else ?m1\<lparr>nrows := length (row_cells ?m1 @ css),
                         ncols := length (hd (row_cells ?m1 @ css)),
                         row_cells := row_cells ?m1 @ css\<rparr>)"
    by blast
  have all: "list_all2 (list_all2 (\<lambda>c v. cell_variant str c = Inr v)) (r # rs) (cells # css)"
    using cells(1) css(1) by simp
  have hd_eq: "hd (row_cells m @ cells # css) = hd (row_cells m @ [cells])"
    by (cases "row_cells m") simp_all
  have "rows_loop str (r # rs) m =
          Inr (m\<lparr>nrows := length (row_cells m @ cells # css),
                 ncols := length (hd (row_cells m @ cells # css)),
                 row_cells := row_cells m @ cells # css\<rparr>)"
  proof (cases "rs = []")
    case True
    with css(1) have "css = []" by simp
    with True step css(2) show ?thesis by simp
  next
    case False
    with step css(2) hd_eq show ?thesis by simp
  qed
  with all show ?case by auto
qed

lemma init_result:
  "\<exists>css. list_all2 (list_all2 (\<lambda>c v. cell_variant str c = Inr v)) (rows src) css
         \<and> LineListTableModel_init str src =
             Inr \<lparr>linelist = src, nrows = length css,
                  ncols = (case css of [] \<Rightarrow> 0 | cs # _ \<Rightarrow> length cs), row_cells = css\<rparr>"
proof -
  let ?m0 = "\<lparr>linelist = src, nrows = 0, ncols = 0, row_cells = []\<rparr>
               :: ('a, 'b) LineListTableModel"
  from rows_loop_result [of str "rows src" ?m0] obtain css where
    css: "list_all2 (list_all2 (\<lambda>c v. cell_variant str c = Inr v)) (rows src) css"
         "rows_loop str (rows src) ?m0 =
             Inr (if rows src = [] then ?m0
                  else ?m0\<lparr>nrows := length (row_cells ?m0 @ css),
                         ncols := length (hd (row_cells ?m0 @ css)),
                         row_cells := row_cells ?m0 @ css\<rparr>)"
    by blast
  have "LineListTableModel_init str src =
             Inr \<lparr>linelist = src, nrows = length css,
                  ncols = (case css of [] \<Rightarrow> 0 | cs # _ \<Rightarrow> length cs), row_cells = css\<rparr>"
  proof (cases "rows src = []")
    case True
    with css(1) have "css = []" by simp
    with True css(2) show ?thesis by (simp add: LineListTableModel_init_def)
  next
    case False
    with css(1) have "css \<noteq> []" by auto
    then obtain cs rest where "css = cs # rest" by (cases css) auto
    with False css(2) show ?thesis by (simp add: LineListTableModel_init_def)
  qed
  with css(1) show ?thesis by blast
qed

lemma init_total: "\<exists>m. LineListTableModel_init str src = Inr m"
  using init_result [of str src] by blast

lemma init_fields:
  assumes "LineListTableModel_init str src = Inr m"
  shows "linelist m = src"
    and "nrows m = length (rows src)"
    and "ncols m = (case rows src of [] \<Rightarrow> 0 | r0 # _ \<Rightarrow> length r0)"
    and "list_all2 (list_all2 (\<lambda>c v. cell_variant str c = Inr v)) (rows src) (row_cells m)"
proof -
  from init_result [of str src] assms obtain css where
    css: "list_all2 (list_all2 (\<lambda>c v. cell_variant str c = Inr v)) (rows src) css"
    and m: "m = \<lparr>linelist = src, nrows = length css,
                  ncols = (case css of [] \<Rightarrow> 0 | cs # _ \<Rightarrow> length cs), row_cells = css\<rparr>"
    by auto
  show "linelist m = src" using m by simp
  show "nrows m = length (rows src)" using m css by (simp add: list_all2_lengthD)
  show "list_all2 (list_all2 (\<lambda>c v. cell_variant str c = Inr v)) (rows src) (row_cells m)"
    using m css by simp
  show "ncols m = (case rows src of [] \<Rightarrow> 0 | r0 # _ \<Rightarrow> length r0)"
  proof (cases "rows src")
    case Nil
    with css m show ?thesis by simp
  next
    case (Cons r0 rest)
    with css obtain cs0 crest where "css = cs0 # crest" "length cs0 = length r0"
      by (auto simp: list_all2_Cons1 list_all2_lengthD)
    with Cons m show ?thesis by simp
  qed
qed

lemma row_cells_nth:
  assumes "LineListTableModel_init str src = Inr m" "r < length (rows src)"
  shows "length (row_cells m ! r) = length (rows src ! r)"
    and "c < length (rows src ! r)
         \<Longrightarrow> cell_variant str (rows src ! r ! c) = Inr (row_cells m ! r ! c)"
proof -
  have all: "list_all2 (list_all2 (\<lambda>c v. cell_variant str c = Inr v)) (rows src) (row_cells m)"
    using init_fields(4) [OF assms(1)] .
  then have row: "list_all2 (\<lambda>c v. cell_variant str c = Inr v) (rows src ! r) (row_cells m ! r)"
    using assms(2) by (rule list_all2_nthD)
  then show "length (row_cells m ! r) = length (rows src ! r)"
    by (simp add: list_all2_lengthD)
  show "c < length (rows src ! r)
        \<Longrightarrow> cell_variant str (rows src ! r ! c) = Inr (row_cells m ! r ! c)"
    using row by (rule list_all2_nthD)
qed

lemma init_two_by_two: "LineListTableModel_init id two_by_two = Inr two_by_two_model"
  by (simp add: LineListTableModel_init_def two_by_two_def two_by_two_model_def py_index_def)

lemma init_ragged_lines:
  "LineListTableModel_init id ragged_lines
     = Inr \<lparr>linelist = ragged_lines, nrows = 2, ncols = 3,
            row_cells = [[QVariant_str ''a'', QVariant_str ''b'', QVariant_str ''red''],
                         [QVariant_str ''d'']]\<rparr>"
  by (simp add: LineListTableModel_init_def ragged_lines_def py_index_def resolve_250_10_10)

section \<open>Texts, floats and the range dialog\<close>

text \<open>
  \<open>str_lt\<close> is the lexicographic order of the library over the order of the code
  points.
\<close>

lemma str_lt_lexord:
  "str_lt l r \<longleftrightarrow> (l, r) \<in> lexord {(a, b). (of_char a :: nat) < of_char b}"
  by (induction l r rule: str_lt.induct) auto

lemma decimal_float_3_5: "decimal_float ''3.5'' = Inr (Finite (7 / 2))"
  by (simp add: decimal_float_def is_digit_def)

lemma decimal_float_10: "decimal_float ''10'' = Inr (Finite 10)"
  by (simp add: decimal_float_def is_digit_def)

lemma decimal_float_abc: "decimal_float ''abc'' = Inl ValueError"
  by (simp add: decimal_float_def is_digit_def)

lemma decimal_float_100: "decimal_float ''100.0'' = Inr (Finite 100)"
  by (simp add: decimal_float_def is_digit_def)







section \<open>The claims\<close>

subsection \<open>C1: a degenerate range\<close>

text \<open>
  Claim C1, as the code has it.  When both text fields hold acceptable input and their
  floats are equal, \<open>_get_range_from_textfields\<close> returns \<open>(None, None)\<close>;
  \<open>_compute_nlines_in_waverange\<close> then skips the extraction and returns the label as
  it was given, whatever \<open>extract_range\<close> would do, so nothing is counted and nothing
  is reported; and \<open>_build_view\<close> on the range \<open>(None, None)\<close> shows the whole list.
\<close>

theorem degenerate_range_label_unchanged:
  assumes "hasAcceptableInput min_text" and "hasAcceptableInput max_text"
      and "float (field_text min_text) = Inr amin"
      and "float (field_text max_text) = Inr amax"
      and "\<not> float_ne amax amin"
  shows "get_range_from_textfields float data_item_units min_text max_text = Inr (None, None)
       \<and> compute_nlines_in_waverange WAVELENGTH_COLUMN float data_item_units extract_range
             line_list min_text max_text label = Inr label
       \<and> build_view_linelist truthy extract_range line_list
             (None :: 'w Quantity option, None :: 'w Quantity option) = Inr line_list"
proof -
  have r: "get_range_from_textfields float data_item_units min_text max_text = Inr (None, None)"
    using assms by (simp add: get_range_from_textfields_def)
  then have "compute_nlines_in_waverange WAVELENGTH_COLUMN float data_item_units extract_range
             line_list min_text max_text label = Inr label"
    by (simp add: compute_nlines_in_waverange_def update_nlines_label_def)
  with r show ?thesis by (simp add: build_view_linelist_def)
qed

text \<open>
  On the three example lines, with \<open>100.0\<close> in both fields and a label that shows 1
  (the count of the range 4000 to 5000).
\<close>

theorem degenerate_range_witness:
  "compute_nlines_in_waverange ''Wavelength'' decimal_float [''Angstrom'']
       extract_range_by_wavelength three_lines
       \<lparr>field_text = ''100.0'', hasAcceptableInput = True\<rparr>
       \<lparr>field_text = ''100.0'', hasAcceptableInput = True\<rparr>
       \<lparr>label_text = ''1'', styleSheet = ''color:black''\<rparr>
     = Inr \<lparr>label_text = ''1'', styleSheet = ''color:black''\<rparr>"
  using degenerate_range_label_unchanged
      [where float = decimal_float
         and min_text = "\<lparr>field_text = ''100.0'', hasAcceptableInput = True\<rparr>"
         and max_text = "\<lparr>field_text = ''100.0'', hasAcceptableInput = True\<rparr>"
         and amin = "Finite 100" and amax = "Finite 100"
         and WAVELENGTH_COLUMN = "''Wavelength''" and data_item_units = "[''Angstrom'']"
         and extract_range = extract_range_by_wavelength and line_list = three_lines
         and label = "\<lparr>label_text = ''1'', styleSheet = ''color:black''\<rparr>"]
    decimal_float_100
  by simp

text \<open>
  Claim C1 as written fails there: the list has three rows, and the label still
  reads 1 after the call, not 3.
\<close>

theorem degenerate_range_count_counterexample:
  "compute_nlines_in_waverange ''Wavelength'' decimal_float [''Angstrom'']
       extract_range_by_wavelength three_lines
       \<lparr>field_text = ''100.0'', hasAcceptableInput = True\<rparr>
       \<lparr>field_text = ''100.0'', hasAcceptableInput = True\<rparr>
       \<lparr>label_text = ''1'', styleSheet = ''color:black''\<rparr>
     = Inr \<lparr>label_text = ''1'', styleSheet = ''color:black''\<rparr>
   \<and> str_nat (length (rows three_lines)) = ''3''"
  by (simp add: compute_nlines_in_waverange_def get_range_from_textfields_def
        update_nlines_label_def decimal_float_100 three_lines_def str_nat.simps)

subsection \<open>C2: the comparator\<close>

text \<open>
  Claim C2.  On two cell texts, \<open>lessThan\<close> returns the less-than of the two floats
  when \<open>float\<close> reads both, and the lexicographic comparison of the texts by code
  points when \<open>float\<close> refuses either; and whatever it is given, it returns a truth
  value, so no exception leaves it.  \<open>float\<close> is any function from texts to floats or
  errors.
\<close>

theorem SortModel_lessThan_numeric_else_lexicographic:
  "(float left = Inr l \<and> float right = Inr r
      \<longrightarrow> SortModel_lessThan float (QVariant_str left) (QVariant_str right)
            = Inr (float_lt l r))
   \<and> ((\<exists>e. float left = Inl e) \<or> (\<exists>e. float right = Inl e)
      \<longrightarrow> SortModel_lessThan float (QVariant_str left) (QVariant_str right)
            = Inr ((left, right) \<in> lexord {(a, b). (of_char a :: nat) < of_char b}))
   \<and> (\<exists>b. SortModel_lessThan float left_data right_data = Inr b)"
proof (intro conjI impI)
  assume "float left = Inr l \<and> float right = Inr r"
  then show "SortModel_lessThan float (QVariant_str left) (QVariant_str right)
               = Inr (float_lt l r)"
    by (simp add: SortModel_lessThan_def lessThan_try_def)
next
  assume "(\<exists>e. float left = Inl e) \<or> (\<exists>e. float right = Inl e)"
  then have "\<exists>e. lessThan_try float (QVariant_str left) (QVariant_str right) = Inl e"
    by (auto simp: lessThan_try_def split: sum.splits)
  then show "SortModel_lessThan float (QVariant_str left) (QVariant_str right)
               = Inr ((left, right) \<in> lexord {(a, b). (of_char a :: nat) < of_char b})"
    by (auto simp: SortModel_lessThan_def str_lt_lexord)
next
  show "\<exists>b. SortModel_lessThan float left_data right_data = Inr b"
    by (simp add: SortModel_lessThan_def split: sum.splits)
qed

text \<open>
  With the reader of decimal literals: 3.5 is below 10 although the text \<open>3.5\<close> is not
  below the text \<open>10\<close>; \<open>abc\<close> is no number, so \<open>abc\<close> and \<open>12\<close> are compared as
  texts.
\<close>

theorem SortModel_lessThan_witness:
  "SortModel_lessThan decimal_float (QVariant_str ''3.5'') (QVariant_str ''10'') = Inr True
   \<and> str_lt ''3.5'' ''10'' = False
   \<and> SortModel_lessThan decimal_float (QVariant_str ''abc'') (QVariant_str ''12'') = Inr False
   \<and> SortModel_lessThan decimal_float (QVariant_str ''12'') (QVariant_str ''abc'') = Inr True"
  using SortModel_lessThan_numeric_else_lexicographic
      [where float = decimal_float and left = "''3.5''" and right = "''10''"
         and l = "Finite (7 / 2)" and r = "Finite 10"]
    SortModel_lessThan_numeric_else_lexicographic
      [where float = decimal_float and left = "''abc''" and right = "''12''"]
    SortModel_lessThan_numeric_else_lexicographic
      [where float = decimal_float and left = "''12''" and right = "''abc''"]
    decimal_float_3_5 decimal_float_10 decimal_float_abc
  by simp

subsection \<open>C3: the nearest palette entry\<close>

text \<open>
  Claim C3.  The palette has nine entries.  For every colour, the resolution returns
  the name of an entry \<open>i\<close> whose distance to the colour (the sum of the absolute
  differences of the red, green and blue channels) is at most that of every entry, and
  strictly less than that of every entry before \<open>i\<close>: the first entry at the least
  distance.  The colour (250, 10, 10) resolves to red.
\<close>

theorem resolve_color_nearest_first_match:
  "length ID_COLORS = 9
   \<and> (\<exists>i < length ID_COLORS.
         resolve_color cell = Inr (fst (ID_COLORS ! i))
         \<and> (\<forall>j < length ID_COLORS.
               color_dist (QColor_of (snd (ID_COLORS ! i))) cell
               \<le> color_dist (QColor_of (snd (ID_COLORS ! j))) cell)
         \<and> (\<forall>j < i.
               color_dist (QColor_of (snd (ID_COLORS ! i))) cell
               < color_dist (QColor_of (snd (ID_COLORS ! j))) cell))
   \<and> resolve_color \<lparr>red = 250, green = 10, blue = 10\<rparr> = Inr ''red''"
  using resolve_color_first_min [of cell] ID_COLORS_length resolve_250_10_10 by blast

text \<open>
  The colour (64, 0, 0) is as far from black as from dark red, and black comes first.
\<close>

theorem resolve_color_nearest_witness:
  "resolve_color \<lparr>red = 64, green = 0, blue = 0\<rparr> = Inr ''black''
   \<and> color_dist (QColor_of Qt_black) \<lparr>red = 64, green = 0, blue = 0\<rparr> = 64
   \<and> color_dist (QColor_of Qt_darkRed) \<lparr>red = 64, green = 0, blue = 0\<rparr> = 64
   \<and> color_dist (QColor_of Qt_red) \<lparr>red = 64, green = 0, blue = 0\<rparr> = 191"
  using resolve_color_nearest_first_match [of "\<lparr>red = 64, green = 0, blue = 0\<rparr>"]
  by (simp add: resolve_color_def ID_COLORS_def color_dist_def py_index_def)

subsection \<open>C4: the frozen counts\<close>

text \<open>
  Claim C4.  The constructor returns a model for every line list; its \<open>rowCount\<close> is
  the number of rows the list had then; and whatever the list is changed to afterwards
  (an update of the field \<open>linelist\<close>, the model's reference to it), \<open>rowCount\<close> and
  \<open>columnCount\<close> return what they returned before.
\<close>

theorem rowCount_columnCount_frozen:
  "\<exists>m. LineListTableModel_init str src = Inr m
       \<and> rowCount m = length (rows src)
       \<and> (\<forall>src'. rowCount (m\<lparr>linelist := src'\<rparr>) = length (rows src)
                 \<and> columnCount (m\<lparr>linelist := src'\<rparr>) = columnCount m)"
proof -
  obtain m where m: "LineListTableModel_init str src = Inr m"
    using init_total by blast
  have "rowCount m = length (rows src)"
    using init_fields(2) [OF m] by (simp add: rowCount_def)
  then show ?thesis using m by (auto simp: rowCount_def columnCount_def)
qed

text \<open>
  The model of the two by two table still has two rows and two columns when its list
  has become the empty one.
\<close>

theorem rowCount_frozen_witness:
  "LineListTableModel_init id two_by_two = Inr two_by_two_model
   \<and> rowCount (two_by_two_model\<lparr>linelist := no_lines\<rparr>) = 2
   \<and> columnCount (two_by_two_model\<lparr>linelist := no_lines\<rparr>) = 2"
  using rowCount_columnCount_frozen [of id two_by_two] init_two_by_two
  by (simp add: rowCount_def columnCount_def two_by_two_model_def)

subsection \<open>C5: cell lookup\<close>

text \<open>
  Claim C5, as the code has it.  \<open>data\<close> indexes the frozen rows the way Python
  indexes lists.  For the display role, on a model built from \<open>src\<close> and whatever the
  list has become since (\<open>src'\<close>): a row index at or beyond the number of rows, or
  below its negation, raises IndexError; so does a column index at or beyond the
  length of the addressed row, or below its negation; a row and a column index from 0
  up to those bounds return the text computed from that cell of \<open>src\<close> when the model
  was built; and a negative index down to the negated length addresses the row, or the
  cell, counted from the end.
\<close>

theorem data_python_indexing:
  assumes "LineListTableModel_init str src = Inr m"
  shows "(row idx < - int (length (rows src)) \<or> int (length (rows src)) \<le> row idx
            \<longrightarrow> data (m\<lparr>linelist := src'\<rparr>) idx (Some DisplayRole) = Inl IndexError)
       \<and> (0 \<le> row idx \<and> row idx < int (length (rows src))
            \<and> (column idx < - int (length (rows src ! nat (row idx)))
                \<or> int (length (rows src ! nat (row idx))) \<le> column idx)
            \<longrightarrow> data (m\<lparr>linelist := src'\<rparr>) idx (Some DisplayRole) = Inl IndexError)
       \<and> (0 \<le> row idx \<and> row idx < int (length (rows src))
            \<and> 0 \<le> column idx \<and> column idx < int (length (rows src ! nat (row idx)))
            \<longrightarrow> data (m\<lparr>linelist := src'\<rparr>) idx (Some DisplayRole)
                  = cell_variant str (rows src ! nat (row idx) ! nat (column idx)))
       \<and> (- int (length (rows src)) \<le> row idx \<and> row idx < 0
            \<longrightarrow> data (m\<lparr>linelist := src'\<rparr>) idx (Some DisplayRole)
                  = data (m\<lparr>linelist := src'\<rparr>)
                      (idx\<lparr>row := int (length (rows src)) + row idx\<rparr>) (Some DisplayRole))
       \<and> (0 \<le> row idx \<and> row idx < int (length (rows src))
            \<and> - int (length (rows src ! nat (row idx))) \<le> column idx \<and> column idx < 0
            \<longrightarrow> data (m\<lparr>linelist := src'\<rparr>) idx (Some DisplayRole)
                  = data (m\<lparr>linelist := src'\<rparr>)
                      (idx\<lparr>column := int (length (rows src ! nat (row idx))) + column idx\<rparr>)
                      (Some DisplayRole))"
proof -
  let ?m = "m\<lparr>linelist := src'\<rparr>"
  have len: "length (row_cells ?m) = length (rows src)"
    using init_fields(4) [OF assms] by (simp add: list_all2_lengthD)
  have rowlen: "length (row_cells ?m ! nat (row idx)) = length (rows src ! nat (row idx))"
    if "0 \<le> row idx" "row idx < int (length (rows src))"
    using row_cells_nth(1) [OF assms, of "nat (row idx)"] that by simp
  have getrow: "py_index (row_cells ?m) (row idx) = Inr (row_cells ?m ! nat (row idx))"
    if "0 \<le> row idx" "row idx < int (length (rows src))"
    using that len by (simp add: py_index_nonneg)
  have a: "data ?m idx (Some DisplayRole) = Inl IndexError"
    if "row idx < - int (length (rows src)) \<or> int (length (rows src)) \<le> row idx"
    using that len py_index_outside [of "row idx" "row_cells ?m"] by (simp add: data_def)
  have b: "data ?m idx (Some DisplayRole) = Inl IndexError"
    if "0 \<le> row idx" "row idx < int (length (rows src))"
       "column idx < - int (length (rows src ! nat (row idx)))
          \<or> int (length (rows src ! nat (row idx))) \<le> column idx"
    using getrow [OF that(1,2)] rowlen [OF that(1,2)] that(3)
      py_index_outside [of "column idx" "row_cells ?m ! nat (row idx)"]
    by (simp add: data_def)
  have c: "data ?m idx (Some DisplayRole)
             = cell_variant str (rows src ! nat (row idx) ! nat (column idx))"
    if "0 \<le> row idx" "row idx < int (length (rows src))"
       "0 \<le> column idx" "column idx < int (length (rows src ! nat (row idx)))"
  proof -
    have "cell_variant str (rows src ! nat (row idx) ! nat (column idx))
            = Inr (row_cells m ! nat (row idx) ! nat (column idx))"
      using row_cells_nth(2) [OF assms, of "nat (row idx)" "nat (column idx)"] that by simp
    moreover have "py_index (row_cells ?m ! nat (row idx)) (column idx)
            = Inr (row_cells ?m ! nat (row idx) ! nat (column idx))"
      using rowlen [OF that(1,2)] that(3,4) by (simp add: py_index_nonneg)
    ultimately show ?thesis using getrow [OF that(1,2)] by (simp add: data_def)
  qed
  have d: "data ?m idx (Some DisplayRole)
             = data ?m (idx\<lparr>row := int (length (rows src)) + row idx\<rparr>) (Some DisplayRole)"
    if "- int (length (rows src)) \<le> row idx" "row idx < 0"
    using that len py_index_negative [of "row_cells ?m" "row idx"]
    by (simp add: data_def split: sum.splits)
  have e: "data ?m idx (Some DisplayRole)
             = data ?m (idx\<lparr>column := int (length (rows src ! nat (row idx))) + column idx\<rparr>)
                 (Some DisplayRole)"
    if "0 \<le> row idx" "row idx < int (length (rows src))"
       "- int (length (rows src ! nat (row idx))) \<le> column idx" "column idx < 0"
    using getrow [OF that(1,2)] rowlen [OF that(1,2)] that(3,4)
      py_index_negative [of "row_cells ?m ! nat (row idx)" "column idx"]
    by (simp add: data_def split: sum.splits)
  from a b c d e show ?thesis by blast
qed

text \<open>
  On the two by two table, after its list has become the empty one: cell (1, 0) is
  still \<open>c\<close>, row 2 raises IndexError, and row -2 is row 0.
\<close>

theorem data_python_indexing_witness:
  "LineListTableModel_init id two_by_two = Inr two_by_two_model
   \<and> data (two_by_two_model\<lparr>linelist := no_lines\<rparr>) \<lparr>row = 1, column = 0\<rparr>
         (Some DisplayRole) = Inr (QVariant_str ''c'')
   \<and> data (two_by_two_model\<lparr>linelist := no_lines\<rparr>) \<lparr>row = 2, column = 0\<rparr>
         (Some DisplayRole) = Inl IndexError
   \<and> data (two_by_two_model\<lparr>linelist := no_lines\<rparr>) \<lparr>row = - 2, column = 1\<rparr>
         (Some DisplayRole) = Inr (QVariant_str ''b'')"
  using data_python_indexing [OF init_two_by_two, of "\<lparr>row = 1, column = 0\<rparr>" no_lines]
    data_python_indexing [OF init_two_by_two, of "\<lparr>row = 2, column = 0\<rparr>" no_lines]
    data_python_indexing [OF init_two_by_two, of "\<lparr>row = - 2, column = 1\<rparr>" no_lines]
    init_two_by_two
  by (simp add: two_by_two_def two_by_two_model_def data_def py_index_def)

text \<open>
  Claim C5 as written fails on the same table: the index (-1, -1), which is what an
  invalid \<open>QModelIndex\<close> holds, lies outside the rows 0 to 1 and the columns 0 to 1,
  and the lookup does not raise: it returns \<open>d\<close>, the text of cell (1, 1).
\<close>

theorem data_negative_index_counterexample:
  "LineListTableModel_init id two_by_two = Inr two_by_two_model
   \<and> rowCount two_by_two_model = 2
   \<and> columnCount two_by_two_model = 2
   \<and> data two_by_two_model \<lparr>row = - 1, column = - 1\<rparr> (Some DisplayRole)
       = Inr (QVariant_str ''d'')
   \<and> data two_by_two_model \<lparr>row = 1, column = 1\<rparr> (Some DisplayRole)
       = Inr (QVariant_str ''d'')"
  by (simp add: LineListTableModel_init_def two_by_two_def two_by_two_model_def
        py_index_def data_def rowCount_def columnCount_def)

subsection \<open>C6: the column tooltip\<close>



subsection \<open>C7: a line list without rows\<close>

text \<open>
  Claim C7.  For a line list without rows the constructor succeeds, with zero rows,
  zero columns and no row cells.  Indexing row 0 of the empty \<open>_row_cells\<close> would
  raise IndexError, and the constructor would return that error: it does not, so the
  probe \<open>_row_cells[0]\<close>, which sits inside the loop over the rows, is never made.
\<close>

theorem init_empty_source:
  assumes "rows src = []"
  shows "LineListTableModel_init str src
           = Inr \<lparr>linelist = src, nrows = 0, ncols = 0, row_cells = []\<rparr>
       \<and> rowCount \<lparr>linelist = src, nrows = 0, ncols = 0, row_cells = []\<rparr> = 0
       \<and> columnCount \<lparr>linelist = src, nrows = 0, ncols = 0, row_cells = []\<rparr> = 0
       \<and> py_index ([] :: QVariant list list) 0 = Inl IndexError"
proof -
  have "rows_loop str (rows src) \<lparr>linelist = src, nrows = 0, ncols = 0, row_cells = []\<rparr>
          = Inr \<lparr>linelist = src, nrows = 0, ncols = 0, row_cells = []\<rparr>"
    using assms by simp
  then show ?thesis
    by (simp add: LineListTableModel_init_def rowCount_def columnCount_def py_index_def)
qed

theorem init_empty_source_witness:
  "rows no_lines = []
   \<and> LineListTableModel_init id no_lines
       = Inr \<lparr>linelist = no_lines, nrows = 0, ncols = 0, row_cells = []\<rparr>"
proof -
  have h: "rows no_lines = []" by (simp add: no_lines_def)
  from init_empty_source [OF h, of id] h show ?thesis by simp
qed

subsection \<open>C8: the count within a range\<close>




subsection \<open>C9: palette colours resolve to themselves\<close>

text \<open>
  Claim C9.  The colour of every palette entry resolves to the name of that entry, and
  every colour resolves to the name of some palette entry: the resolution never fails.
\<close>

theorem resolve_color_palette_fixed_point:
  "(\<forall>(color_name, orig_color) \<in> set ID_COLORS.
       resolve_color (QColor_of orig_color) = Inr color_name)
   \<and> (\<exists>color_name \<in> fst ` set ID_COLORS. resolve_color cell = Inr color_name)"
proof
  show "\<forall>(color_name, orig_color) \<in> set ID_COLORS.
          resolve_color (QColor_of orig_color) = Inr color_name"
    by (simp add: resolve_color_def ID_COLORS_def color_dist_def py_index_def)
next
  from resolve_color_first_min [of cell] obtain i where
    i: "i < length ID_COLORS" "resolve_color cell = Inr (fst (ID_COLORS ! i))"
    by blast
  from i(1) have "fst (ID_COLORS ! i) \<in> fst ` set ID_COLORS"
    by simp
  with i(2) show "\<exists>color_name \<in> fst ` set ID_COLORS. resolve_color cell = Inr color_name"
    by blast
qed

theorem resolve_color_fixed_point_witness:
  "(''dark red'', Qt_darkRed) \<in> set ID_COLORS
   \<and> resolve_color (QColor_of Qt_darkRed) = Inr ''dark red''"
proof -
  have mem: "(''dark red'', Qt_darkRed) \<in> set ID_COLORS"
    by (simp add: ID_COLORS_def)
  from resolve_color_palette_fixed_point [of "QColor_of Qt_darkRed"] mem
  have "resolve_color (QColor_of Qt_darkRed) = Inr ''dark red''"
    by blast
  with mem show ?thesis by simp
qed

subsection \<open>C10: the column count is that of the first row\<close>

text \<open>
  Claim C10.  For a line list with a first row \<open>r0\<close>, whatever the rows after it, the
  constructor returns a model whose \<open>columnCount\<close> is the length of \<open>r0\<close>; and a lookup
  in a row \<open>r\<close> at a column at or beyond the length of that row raises IndexError,
  also where the column is below \<open>columnCount\<close>: the lookup consults the row, not the
  count.
\<close>

theorem columnCount_first_row:
  assumes "rows src = r0 # rest"
  shows "\<exists>m. LineListTableModel_init str src = Inr m
           \<and> columnCount m = length r0
           \<and> (\<forall>r c. 0 \<le> r \<and> r < int (length (rows src))
                    \<and> int (length (rows src ! nat r)) \<le> c
                 \<longrightarrow> data m \<lparr>row = r, column = c\<rparr> (Some DisplayRole) = Inl IndexError)"
proof -
  obtain m where m: "LineListTableModel_init str src = Inr m"
    using init_total by blast
  have cc: "columnCount m = length r0"
    using init_fields(3) [OF m] assms by (simp add: columnCount_def)
  have len: "length (row_cells m) = length (rows src)"
    using init_fields(4) [OF m] by (simp add: list_all2_lengthD)
  have "data m \<lparr>row = r, column = c\<rparr> (Some DisplayRole) = Inl IndexError"
    if r: "0 \<le> r" "r < int (length (rows src))" and c: "int (length (rows src ! nat r)) \<le> c"
    for r c
  proof -
    from r have nr: "nat r < length (rows src)" by simp
    have "py_index (row_cells m) r = Inr (row_cells m ! nat r)"
      using r len by (simp add: py_index_nonneg)
    moreover have "length (row_cells m ! nat r) = length (rows src ! nat r)"
      using row_cells_nth(1) [OF m nr] .
    then have "py_index (row_cells m ! nat r) c = Inl IndexError"
      using c by (simp add: py_index_outside)
    ultimately show ?thesis by (simp add: data_def)
  qed
  with m cc show ?thesis by blast
qed

text \<open>
  The ragged example has a first row of three cells and a second of one: the column
  count is 3, and the lookup at (1, 2), a column below 3, raises IndexError.
\<close>

theorem columnCount_first_row_witness:
  "columnCount \<lparr>linelist = ragged_lines, nrows = 2, ncols = 3,
             row_cells = [[QVariant_str ''a'', QVariant_str ''b'', QVariant_str ''red''],
                          [QVariant_str ''d'']]\<rparr> = 3
   \<and> data \<lparr>linelist = ragged_lines, nrows = 2, ncols = 3,
             row_cells = [[QVariant_str ''a'', QVariant_str ''b'', QVariant_str ''red''],
                          [QVariant_str ''d'']]\<rparr> \<lparr>row = 1, column = 2\<rparr> (Some DisplayRole)
       = Inl IndexError"
proof -
  have h: "rows ragged_lines
             = [Value ''a'', Value ''b'', Color \<lparr>red = 250, green = 10, blue = 10\<rparr>]
               # [[Value ''d'']]"
    by (simp add: ragged_lines_def)
  from columnCount_first_row [OF h, of id] init_ragged_lines
  have "columnCount \<lparr>linelist = ragged_lines, nrows = 2, ncols = 3,
             row_cells = [[QVariant_str ''a'', QVariant_str ''b'', QVariant_str ''red''],
                          [QVariant_str ''d'']]\<rparr> = 3
     \<and> (\<forall>r c. 0 \<le> r \<and> r < int (length (rows ragged_lines))
                    \<and> int (length (rows ragged_lines ! nat r)) \<le> c
          \<longrightarrow> data \<lparr>linelist = ragged_lines, nrows = 2, ncols = 3,
             row_cells = [[QVariant_str ''a'', QVariant_str ''b'', QVariant_str ''red''],
                          [QVariant_str ''d'']]\<rparr> \<lparr>row = r, column = c\<rparr> (Some DisplayRole)
                = Inl IndexError)"
    by simp
  moreover have "(0::int) \<le> 1 \<and> 1 < int (length (rows ragged_lines))
                    \<and> int (length (rows ragged_lines ! nat 1)) \<le> 2"
    by (simp add: ragged_lines_def)
  ultimately show ?thesis by blast
qed

end
